theory Spec2Isabelle
  imports Main "HOL-Library.Word" "HOL-Library.AList"
begin

section \<open>The load-test job controller (controllers/job.go)\<close>

text \<open>
  The file holds three functions: \<open>MergePreservingExistingKeys\<close> (fills the missing keys
  of one resource list from another), \<open>job\<close> (builds the batch Job of a LoadTest) and
  \<open>ensureJob\<close> (creates the Job in the cluster unless it is there already).

  Go values are embedded as follows.
  \<^item> A Go map is a reference: two variables may name the same map, and a write through one
    is seen through the other. Resource lists are therefore kept in a store of map cells
    and a \<open>ResourceList\<close> value is \<open>None\<close> (the nil map) or the address of a cell.
    A cell lists the entries of the map; \<open>range\<close> visits them in the order of the list.
    Go leaves that order open, so every statement about contents goes through \<open>map_of\<close>.
  \<^item> A pointer or slice that the code compares with nil is an \<open>option\<close>.
  \<^item> \<open>int32\<close> is \<open>32 word\<close>, Go's \<open>int\<close> is \<open>64 word\<close> (the operator is built for
    64-bit targets); both are read as signed with \<open>sint\<close>.
  \<^item> Calls that leave the process (the cluster client, the logger, the event recorder)
    are recorded in an explicit \<open>world\<close> that each function returns updated.
\<close>

subsection \<open>Resource lists in a store\<close>

type_synonym ResourceName = string

text \<open>A quantity is identified by the literal it was parsed from.\<close>

datatype Quantity = MustParse string

definition ResourceCPU :: ResourceName where
  "ResourceCPU = ''cpu''"

definition ResourceMemory :: ResourceName where
  "ResourceMemory = ''memory''"

type_synonym addr = nat

type_synonym ResourceList = "addr option"

type_synonym store = "(ResourceName \<times> Quantity) list list"

text \<open>The entries of the map at an address.\<close>

definition cell :: "store \<Rightarrow> addr \<Rightarrow> (ResourceName \<times> Quantity) list" where
  "cell h a = (if a < length h then h ! a else [])"

text \<open>\<open>make(map[...]..., n)\<close>: a new empty map at an address not in use.\<close>

definition make_map :: "store \<Rightarrow> addr \<times> store" where
  "make_map h = (length h, h @ [[]])"

text \<open>A composite literal \<open>corev1.ResourceList{k1: v1, ...}\<close>: a new map holding the entries.\<close>

definition map_literal :: "store \<Rightarrow> (ResourceName \<times> Quantity) list \<Rightarrow> addr \<times> store" where
  "map_literal h kvs = (length h, h @ [kvs])"

text \<open>\<open>dest[k] = v\<close> on the map at address \<open>a\<close>.\<close>

definition assign :: "store \<Rightarrow> addr \<Rightarrow> ResourceName \<Rightarrow> Quantity \<Rightarrow> store" where
  "assign h a k v = (if a < length h then h[a := AList.update k v (h ! a)] else h)"

text \<open>\<open>m[k]\<close> with its presence flag; the nil map has no key.\<close>

definition lookup :: "store \<Rightarrow> ResourceList \<Rightarrow> ResourceName \<Rightarrow> Quantity option" where
  "lookup h m k = (case m of None \<Rightarrow> None | Some a \<Rightarrow> map_of (cell h a) k)"

text \<open>A reference is well formed when it is nil or names a cell of the store.\<close>

definition valid :: "store \<Rightarrow> ResourceList \<Rightarrow> bool" where
  "valid h m = (case m of None \<Rightarrow> True | Some a \<Rightarrow> a < length h)"

text \<open>
  The loop \<open>for k, v := range src { if _, exists := dest[k]; !exists { dest[k] = v } }\<close>
  over the entries of \<open>src\<close>, writing to the map at address \<open>d\<close>.
\<close>

fun merge_loop :: "store \<Rightarrow> addr \<Rightarrow> (ResourceName \<times> Quantity) list \<Rightarrow> store" where
  "merge_loop h d [] = h"
| "merge_loop h d ((k, v) # kvs) =
     merge_loop (if map_of (cell h d) k = None then assign h d k v else h) d kvs"

text \<open>Ranging over the nil map runs the body no times.\<close>

definition entries :: "store \<Rightarrow> ResourceList \<Rightarrow> (ResourceName \<times> Quantity) list" where
  "entries h m = (case m of None \<Rightarrow> [] | Some a \<Rightarrow> cell h a)"

definition MergePreservingExistingKeys ::
    "store \<Rightarrow> ResourceList \<Rightarrow> ResourceList \<Rightarrow> ResourceList \<times> store" where
  "MergePreservingExistingKeys h dest src =
     (case dest of
        None \<Rightarrow>
          (if src = None then (None, h)
           else (let (d, h1) = make_map h
                 in (Some d, merge_loop h1 d (entries h1 src))))
      | Some d \<Rightarrow> (Some d, merge_loop h d (entries h src)))"

subsection \<open>The LoadTest resource\<close>

text \<open>
  The type \<open>lt.LoadTest\<close> is declared in the API package \<open>api/v1alpha1\<close>. Only the
  fields that \<open>job.go\<close> reads are kept. \<open>Count\<close> is a Go \<open>int\<close>, which \<open>job\<close> narrows
  with \<open>int32(...)\<close> before it stores it in the Job.
\<close>

record ResourceRequirements =
  Limits :: ResourceList
  Requests :: ResourceList

record LoadTestSecretMount =
  sm_Name :: string
  sm_MountPoint :: string

record LoadTestSpec =
  Count :: "64 word"
  Image :: string
  Args :: "string list option"
  Resources :: "ResourceRequirements option"
  SecretEnvSource :: string
  SecretMount :: "LoadTestSecretMount option"
  UsersFile :: string

record LoadTest =
  lt_Name :: string
  lt_Namespace :: string
  lt_UID :: string
  lt_Spec :: LoadTestSpec

subsection \<open>The Job that is built\<close>

datatype EnvVarSource = FieldRef string

record EnvVar =
  env_Name :: string
  env_Value :: string
  env_ValueFrom :: "EnvVarSource option"

record EnvFromSource =
  SecretRef :: "string option"

record Volume =
  vol_Name :: string
  vol_Secret :: "string option"

record VolumeMount =
  vm_Name :: string
  vm_MountPath :: string

datatype PullPolicy = PullAlways | PullNever | PullIfNotPresent

datatype CompletionMode = NonIndexedCompletion | IndexedCompletion

record Container =
  c_Name :: string
  c_Image :: string
  c_ImagePullPolicy :: PullPolicy
  c_Resources :: ResourceRequirements
  c_Args :: "string list"
  c_EnvFrom :: "EnvFromSource list"
  c_Env :: "EnvVar list"
  c_VolumeMounts :: "VolumeMount list"

record PodSpec =
  Containers :: "Container list"
  RestartPolicy :: string
  Volumes :: "Volume list"

record PodTemplateSpec =
  tmpl_Labels :: "string \<rightharpoonup> string"
  tmpl_Spec :: PodSpec

record JobSpec =
  Parallelism :: "32 word option"
  Completions :: "32 word option"
  CompletionMode :: "CompletionMode option"
  BackoffLimit :: "32 word option"
  Template :: PodTemplateSpec

record OwnerReference =
  or_APIVersion :: string
  or_Kind :: string
  or_Name :: string
  or_UID :: string
  or_Controller :: bool
  or_BlockOwnerDeletion :: bool

record Job =
  job_Name :: string
  job_Namespace :: string
  job_Labels :: "string \<rightharpoonup> string"
  job_OwnerReferences :: "OwnerReference list"
  job_Spec :: JobSpec

text \<open>
  \<open>labels\<close> creates the labels that organise and select the objects of a load test.
\<close>

definition labels :: "LoadTest \<Rightarrow> string \<Rightarrow> (string \<rightharpoonup> string)" where
  "labels v component =
     [''artillery.io/test-name'' \<mapsto> lt_Name v,
      ''artillery.io/component'' \<mapsto> component,
      ''artillery.io/part-of'' \<mapsto> ''loadtest'']"

subsection \<open>Errors, the logger and the reconciler\<close>

datatype StatusReason =
  StatusReasonNotFound | StatusReasonAlreadyExists | StatusReasonForbidden
  | StatusReasonTimeout | StatusReasonInternalError

text \<open>
  A Go \<open>error\<close> value: an API status error with its reason, or an error made with
  \<open>errors.New\<close>. The nil error is \<open>None\<close> of \<open>error option\<close>.
\<close>

datatype error = StatusError StatusReason string | New string

text \<open>
  Modelled from the spec: \<open>k8error.IsNotFound\<close> of the apimachinery library, which tells
  the "not found" outcome of a lookup from every other failure.
\<close>

fun IsNotFound :: "error \<Rightarrow> bool" where
  "IsNotFound (StatusError reason msg) = (reason = StatusReasonNotFound)"
| "IsNotFound (New msg) = False"

text \<open>A call of \<open>logger.Info\<close> or \<open>logger.Error\<close>: the message and its key-value pairs.\<close>

datatype log_entry =
  Info string "string list"
  | Error error string "string list"

text \<open>
  The reconciler embeds the cluster client and holds the scheme and the telemetry
  configuration. The client is outside this repository, so its two operations are
  fields: \<open>Get\<close> reads the cluster state \<open>'c\<close>, \<open>Create\<close> may change it.
  \<open>Scheme\<close> is what the scheme answers for the LoadTest type (its API version and kind,
  when registered). \<open>TelemetryConfig\<close> is the list that \<open>ToK8sEnvVar()\<close> produces.
\<close>

record NamespacedName =
  nn_Name :: string
  nn_Namespace :: string

record 'c LoadTestReconciler =
  Get :: "'c \<Rightarrow> NamespacedName \<Rightarrow> error + Job"
  Create :: "'c \<Rightarrow> Job \<Rightarrow> error option \<times> 'c"
  Scheme :: "(string \<times> string) option"
  TelemetryConfig :: "EnvVar list"

text \<open>
  Modelled from the spec: \<open>ctrl.SetControllerReference\<close> of controller-runtime, which sets
  the ownership back-reference of the built unit and may fail. It refuses an owner in
  another namespace and an owner whose kind the scheme does not know; it changes nothing
  but the owner references.
\<close>

definition SetControllerReference ::
    "LoadTest \<Rightarrow> Job \<Rightarrow> (string \<times> string) option \<Rightarrow> error option \<times> Job" where
  "SetControllerReference owner controlled scheme =
     (if lt_Namespace owner \<noteq> '''' \<and> lt_Namespace owner \<noteq> job_Namespace controlled
      then (Some (New ''cross-namespace owner references are disallowed''), controlled)
      else (case scheme of
              None \<Rightarrow> (Some (New ''no kind is registered for the owner type''), controlled)
            | Some (apiVersion, kind) \<Rightarrow>
                (None, controlled\<lparr>job_OwnerReferences :=
                   [\<lparr>or_APIVersion = apiVersion, or_Kind = kind, or_Name = lt_Name owner,
                     or_UID = lt_UID owner, or_Controller = True,
                     or_BlockOwnerDeletion = True\<rparr>]\<rparr>)))"

subsection \<open>Building the Job\<close>

text \<open>
  \<open>job\<close> creates a Job spec based on the LoadTest custom resource. \<open>WorkerImage\<close> is a
  constant of the package declared in another file; it is a parameter here. The result
  is the Job, the store after the two default resource lists were allocated and merged
  into, and what was logged.
\<close>

definition job ::
    "'c LoadTestReconciler \<Rightarrow> string \<Rightarrow> store \<Rightarrow> LoadTest \<Rightarrow> Job \<times> store \<times> log_entry list" where
  "job r WorkerImage h0 v =
     (let spec = lt_Spec v;
          parallelism = (if 0 <s Count spec then scast (Count spec) else 1);
          completions = (if 0 <s Count spec then scast (Count spec) else 1);
          backoffLimit = 0;
          (dl, h1) = map_literal h0
            [(ResourceCPU, MustParse ''2''), (ResourceMemory, MustParse ''4Gi'')];
          (dr, h2) = map_literal h1
            [(ResourceCPU, MustParse ''2''), (ResourceMemory, MustParse ''2Gi'')];
          (limits, h3) =
            (case Resources spec of
               None \<Rightarrow> (Some dl, h2)
             | Some rs \<Rightarrow>
                 if Limits rs \<noteq> None
                 then MergePreservingExistingKeys h2 (Limits rs) (Some dl)
                 else (Some dl, h2));
          (requests, h4) =
            (case Resources spec of
               None \<Rightarrow> (Some dr, h3)
             | Some rs \<Rightarrow>
                 if Requests rs \<noteq> None
                 then MergePreservingExistingKeys h3 (Requests rs) (Some dr)
                 else (Some dr, h3));
          img = (if Image spec \<noteq> '''' then Image spec else WorkerImage);
          args = (case Args spec of None \<Rightarrow> [''help''] | Some a \<Rightarrow> a);
          completion = IndexedCompletion;
          secrets =
            (if SecretEnvSource spec \<noteq> ''''
             then [\<lparr>SecretRef = Some (SecretEnvSource spec)\<rparr>] else []);
          envVars0 =
            [\<lparr>env_Name = ''WORKER_ID'', env_Value = '''',
              env_ValueFrom = Some (FieldRef ''metadata.name'')\<rparr>];
          (volumes, logged, volumeMounts, envVars) =
            (case SecretMount spec of
               None \<Rightarrow> ([], [], [], envVars0)
             | Some sm \<Rightarrow>
                 ([\<lparr>vol_Name = sm_Name sm, vol_Secret = Some (sm_Name sm)\<rparr>],
                  (if UsersFile spec = ''''
                   then [Error
                     (New ''You need to specify the UsersFile when mounting a SecretsMount'')
                     '''' []]
                   else []),
                  [\<lparr>vm_Name = sm_Name sm, vm_MountPath = sm_MountPoint sm\<rparr>],
                  envVars0 @
                  [\<lparr>env_Name = ''USERS_PAYLOAD_PATH'',
                    env_Value = sm_MountPoint sm @ ''/'' @ UsersFile spec,
                    env_ValueFrom = None\<rparr>]));
          built =
            \<lparr>job_Name = lt_Name v,
             job_Namespace = lt_Namespace v,
             job_Labels = labels v ''loadtest-worker-master'',
             job_OwnerReferences = [],
             job_Spec =
               \<lparr>Parallelism = Some parallelism,
                Completions = Some completions,
                CompletionMode = Some completion,
                BackoffLimit = Some backoffLimit,
                Template =
                  \<lparr>tmpl_Labels = labels v ''loadtest-worker'',
                   tmpl_Spec =
                     \<lparr>Containers =
                        [\<lparr>c_Name = lt_Name v,
                          c_Image = img,
                          c_ImagePullPolicy = PullIfNotPresent,
                          c_Resources = \<lparr>Limits = limits, Requests = requests\<rparr>,
                          c_Args = args,
                          c_EnvFrom = secrets,
                          c_Env = envVars @ TelemetryConfig r,
                          c_VolumeMounts = volumeMounts\<rparr>],
                      RestartPolicy = ''Never'',
                      Volumes = volumes\<rparr>\<rparr>\<rparr>\<rparr>;
          (ignored, owned) = SetControllerReference v built (Scheme r)
      in (owned, h4, logged))"

text \<open>The pod specification inside a Job.\<close>

definition pod :: "Job \<Rightarrow> PodSpec" where
  "pod j = tmpl_Spec (Template (job_Spec j))"

subsection \<open>Ensuring the Job exists\<close>

text \<open>
  What a reconciliation leaves behind: the cluster state, the client calls in the order
  they were made, the log and the recorded events.
\<close>

datatype call = GetCall NamespacedName | CreateCall Job

datatype event = Eventf string string string string

record 'c world =
  cluster :: 'c
  calls :: "call list"
  logs :: "log_entry list"
  events :: "event list"

record Result =
  Requeue :: bool
  RequeueAfter :: int

text \<open>The empty \<open>ctrl.Result{}\<close>.\<close>

definition empty_Result :: Result where
  "empty_Result = \<lparr>Requeue = False, RequeueAfter = 0\<rparr>"

text \<open>
  \<open>ensureJob\<close> creates a Job that in turn creates the worker pods. It returns the pair
  (result pointer, error) of the Go function and the world after the call. When \<open>Get\<close>
  fails, \<open>found\<close> still is the empty Job, whose namespace and name are empty strings.
\<close>

definition ensureJob ::
    "'c LoadTestReconciler \<Rightarrow> 'c world \<Rightarrow> LoadTest \<Rightarrow> Job
      \<Rightarrow> (Result option \<times> error option) \<times> 'c world" where
  "ensureJob r w instance j =
     (let key = \<lparr>nn_Name = job_Name j, nn_Namespace = lt_Namespace instance\<rparr>;
          w1 = w\<lparr>calls := calls w @ [GetCall key]\<rparr>
      in case Get r (cluster w) key of
           Inl err \<Rightarrow>
             if IsNotFound err then
               (let w2 = w1\<lparr>logs := logs w1 @
                            [Info ''Creating a new Job''
                               [''Job.Namespace'', job_Namespace j, ''Job.Name'', job_Name j]]\<rparr>;
                    (cerr, c') = Create r (cluster w2) j;
                    w3 = w2\<lparr>cluster := c', calls := calls w2 @ [CreateCall j]\<rparr>
                in case cerr of
                     Some e \<Rightarrow>
                       ((Some empty_Result, Some e),
                        w3\<lparr>logs := logs w3 @
                          [Error e ''Failed to create new Job''
                             [''Job.Namespace'', job_Namespace j, ''Job.Name'', job_Name j]]\<rparr>)
                   | None \<Rightarrow>
                       ((None, None),
                        w3\<lparr>events := events w3 @
                          [Eventf (lt_Name instance) ''Normal'' ''Created''
                             (''Created Load Test worker master job: '' @ job_Name j)]\<rparr>))
             else
               ((Some empty_Result, Some err),
                w1\<lparr>logs := logs w1 @
                  [Error err ''Failed to get Job'' [''Job.Namespace'', '''', ''Job.Name'', '''']]\<rparr>)
         | Inr found \<Rightarrow> ((None, None), w1))"

text \<open>The number of submissions among the client calls.\<close>

fun is_create :: "call \<Rightarrow> bool" where
  "is_create (CreateCall j) = True"
| "is_create (GetCall key) = False"

definition creations :: "'c world \<Rightarrow> nat" where
  "creations w = length (filter is_create (calls w))"

subsection \<open>A cluster for concrete runs\<close>

text \<open>
  A small cluster used where a statement is run on a concrete input: the Jobs by
  namespace and name. A lookup of an absent Job fails with "not found"; a submission of
  a Job that is there already fails with "already exists"; \<open>down_Get\<close> and
  \<open>down_Create\<close> fail whatever the state.
\<close>

type_synonym jobs = "((string \<times> string) \<times> Job) list"

definition jobs_Get :: "jobs \<Rightarrow> NamespacedName \<Rightarrow> error + Job" where
  "jobs_Get c key =
     (case map_of c (nn_Namespace key, nn_Name key) of
        None \<Rightarrow> Inl (StatusError StatusReasonNotFound ''not found'')
      | Some found \<Rightarrow> Inr found)"

definition jobs_Create :: "jobs \<Rightarrow> Job \<Rightarrow> error option \<times> jobs" where
  "jobs_Create c j =
     (case map_of c (job_Namespace j, job_Name j) of
        None \<Rightarrow> (None, ((job_Namespace j, job_Name j), j) # c)
      | Some found \<Rightarrow> (Some (StatusError StatusReasonAlreadyExists ''already exists''), c))"

definition down_Get :: "jobs \<Rightarrow> NamespacedName \<Rightarrow> error + Job" where
  "down_Get c key = Inl (StatusError StatusReasonTimeout ''timeout'')"

definition down_Create :: "jobs \<Rightarrow> Job \<Rightarrow> error option \<times> jobs" where
  "down_Create c j = (Some (StatusError StatusReasonForbidden ''forbidden''), c)"

definition reconciler :: "jobs LoadTestReconciler" where
  "reconciler =
     \<lparr>Get = jobs_Get, Create = jobs_Create,
      Scheme = Some (''loadtest.artillery.io/v1alpha1'', ''LoadTest''),
      TelemetryConfig =
        [\<lparr>env_Name = ''ARTILLERY_DISABLE_TELEMETRY'', env_Value = ''false'',
          env_ValueFrom = None\<rparr>]\<rparr>"

definition start :: "jobs world" where
  "start = \<lparr>cluster = [], calls = [], logs = [], events = []\<rparr>"

definition plain_Spec :: LoadTestSpec where
  "plain_Spec =
     \<lparr>Count = 0, Image = '''', Args = None, Resources = None, SecretEnvSource = '''',
      SecretMount = None, UsersFile = ''''\<rparr>"

definition test :: LoadTest where
  "test = \<lparr>lt_Name = ''test'', lt_Namespace = ''default'', lt_UID = ''u1'',
           lt_Spec = plain_Spec\<rparr>"

text \<open>The identity under which \<open>ensureJob\<close> looks the Job up.\<close>

definition lookup_key :: "LoadTest \<Rightarrow> Job \<Rightarrow> NamespacedName" where
  "lookup_key instance j = \<lparr>nn_Name = job_Name j, nn_Namespace = lt_Namespace instance\<rparr>"

text \<open>Load tests for concrete runs, and the Job built for the plain one.\<close>

definition three :: LoadTest where
  "three = test\<lparr>lt_Spec := plain_Spec\<lparr>Count := 3\<rparr>\<rparr>"

definition huge :: LoadTest where
  "huge = test\<lparr>lt_Spec := plain_Spec\<lparr>Count := 2147483648\<rparr>\<rparr>"

definition custom :: LoadTest where
  "custom = test\<lparr>lt_Spec := plain_Spec\<lparr>Image := ''artillery:dev'',
     Args := Some [''run'', ''script.yaml'']\<rparr>\<rparr>"

definition empty_args :: LoadTest where
  "empty_args = test\<lparr>lt_Spec := plain_Spec\<lparr>Args := Some []\<rparr>\<rparr>"

definition creds :: LoadTestSecretMount where
  "creds = \<lparr>sm_Name = ''creds'', sm_MountPoint = ''/data''\<rparr>"

definition mounted :: LoadTest where
  "mounted = test\<lparr>lt_Spec := plain_Spec\<lparr>SecretMount := Some creds\<rparr>\<rparr>"

definition users_only :: LoadTest where
  "users_only = test\<lparr>lt_Spec := plain_Spec\<lparr>UsersFile := ''users.csv''\<rparr>\<rparr>"

definition built :: Job where
  "built = fst (job reconciler ''artillery'' [] test)"

definition created :: "jobs world" where
  "created = start\<lparr>cluster := [((''default'', ''test''), built)]\<rparr>"

text \<open>A store with an override list and a default list.\<close>

definition two_maps :: store where
  "two_maps = [[(''memory'', MustParse ''8Gi'')],
               [(''cpu'', MustParse ''2''), (''memory'', MustParse ''4Gi'')]]"

section \<open>Properties\<close>

subsection \<open>The merge of resource lists\<close>

lemma length_assign[simp]: "length (assign h a k v) = length h"
  by (simp add: assign_def)

lemma length_merge_loop[simp]: "length (merge_loop h d kvs) = length h"
  by (induction h d kvs rule: merge_loop.induct) auto

lemma cell_assign_other: "a \<noteq> d \<Longrightarrow> cell (assign h d k v) a = cell h a"
  by (simp add: assign_def cell_def)

lemma cell_merge_loop_other: "a \<noteq> d \<Longrightarrow> cell (merge_loop h d kvs) a = cell h a"
  by (induction h d kvs rule: merge_loop.induct) (auto simp: cell_assign_other)

lemma map_of_cell_assign:
  "d < length h \<Longrightarrow> map_of (cell (assign h d k v) d) = (map_of (cell h d))(k \<mapsto> v)"
  by (simp add: assign_def cell_def update_conv')

lemma map_of_cell_merge_loop:
  "d < length h \<Longrightarrow>
   map_of (cell (merge_loop h d kvs) d) k =
     (case map_of (cell h d) k of Some v \<Rightarrow> Some v | None \<Rightarrow> map_of kvs k)"
  by (induction h d kvs rule: merge_loop.induct)
     (auto simp: map_of_cell_assign split: option.splits)

lemma merge_loop_present:
  "\<forall>k \<in> fst ` set kvs. map_of (cell h d) k \<noteq> None \<Longrightarrow> merge_loop h d kvs = h"
  by (induction h d kvs rule: merge_loop.induct) auto

lemma merge_loop_self: "merge_loop h d (cell h d) = h"
  by (rule merge_loop_present) (auto simp: map_of_eq_None_iff)


lemma cell_snoc: "a < length h \<Longrightarrow> cell (h @ [x]) a = cell h a"
  by (simp add: cell_def nth_append)

lemma cell_snoc_new: "cell (h @ [x]) (length h) = x"
  by (simp add: cell_def)

lemma merge_into_new:
  assumes "s < length h"
  shows "MergePreservingExistingKeys h None (Some s) =
           (Some (length h), merge_loop (h @ [[]]) (length h) (cell h s))"
  using assms by (simp add: MergePreservingExistingKeys_def make_map_def entries_def cell_snoc)

lemma merge_into_existing:
  "MergePreservingExistingKeys h (Some d) src = (Some d, merge_loop h d (entries h src))"
  by (simp add: MergePreservingExistingKeys_def)

text \<open>
  C4. For all resource lists \<open>dest\<close> and \<open>src\<close>, the merge keeps every key of \<open>dest\<close> with
  its value and gives every other key the value it has in \<open>src\<close>, so it adds only keys of
  \<open>src\<close> that \<open>dest\<close> lacks; the merge of nil and nil is nil; the merge of nil and \<open>src\<close>
  agrees with \<open>src\<close> key for key; and the entries of \<open>src\<close> are the same after the call as
  before it, also when \<open>dest\<close> and \<open>src\<close> are one and the same map.
\<close>

theorem MergePreservingExistingKeys_fills_missing:
  assumes "valid h dest" and "valid h src"
    and "MergePreservingExistingKeys h dest src = (merged, h')"
  shows "(\<forall>k v. lookup h dest k = Some v \<longrightarrow> lookup h' merged k = Some v) \<and>
         (\<forall>k. lookup h dest k = None \<longrightarrow> lookup h' merged k = lookup h src k) \<and>
         (dest = None \<and> src = None \<longrightarrow> merged = None) \<and>
         (dest = None \<longrightarrow> (\<forall>k. lookup h' merged k = lookup h src k)) \<and>
         entries h' src = entries h src"
proof (cases dest)
  case None
  show ?thesis
  proof (cases src)
    case src_nil: None
    with None assms(3) show ?thesis
      by (simp add: MergePreservingExistingKeys_def lookup_def)
  next
    case (Some s)
    with assms(2) have s: "s < length h" by (simp add: valid_def)
    from merge_into_new [OF s] assms(3) None Some
    have m: "merged = Some (length h)"
      and h': "h' = merge_loop (h @ [[]]) (length h) (cell h s)" by simp_all
    have new: "\<And>k. lookup h' merged k = map_of (cell h s) k"
      by (simp add: m h' lookup_def map_of_cell_merge_loop cell_snoc_new)
    have old: "cell h' s = cell h s"
      using s by (simp add: h' cell_merge_loop_other cell_snoc)
    show ?thesis using None Some new old
      by (simp add: lookup_def entries_def)
  qed
next
  case (Some d)
  with assms(1) have d: "d < length h" by (simp add: valid_def)
  from merge_into_existing [of h d src] assms(3) Some
  have m: "merged = Some d" and h': "h' = merge_loop h d (entries h src)" by simp_all
  have res: "\<And>k. lookup h' merged k =
      (case map_of (cell h d) k of Some v \<Rightarrow> Some v | None \<Rightarrow> map_of (entries h src) k)"
    using d by (simp add: m h' lookup_def map_of_cell_merge_loop)
  have ent: "\<And>k. map_of (entries h src) k = lookup h src k"
    by (simp add: entries_def lookup_def split: option.splits)
  have same: "entries h' src = entries h src"
  proof (cases "src = Some d")
    case True
    then show ?thesis by (simp add: h' entries_def merge_loop_self)
  next
    case False
    then show ?thesis
      by (cases src) (simp_all add: h' entries_def cell_merge_loop_other)
  qed
  show ?thesis using Some res ent same
    by (simp add: lookup_def)
qed

theorem MergePreservingExistingKeys_fills_missing_witness:
  "valid two_maps (Some 0) \<and> valid two_maps (Some 1) \<and>
   MergePreservingExistingKeys two_maps (Some 0) (Some 1) =
     (Some 0, [[(''memory'', MustParse ''8Gi''), (''cpu'', MustParse ''2'')],
               [(''cpu'', MustParse ''2''), (''memory'', MustParse ''4Gi'')]]) \<and>
   lookup two_maps (Some 0) ''memory'' = Some (MustParse ''8Gi'') \<and>
   lookup (snd (MergePreservingExistingKeys two_maps (Some 0) (Some 1))) (Some 0) ''memory''
     = Some (MustParse ''8Gi'') \<and>
   lookup two_maps (Some 0) ''cpu'' = None \<and>
   lookup (snd (MergePreservingExistingKeys two_maps (Some 0) (Some 1))) (Some 0) ''cpu''
     = Some (MustParse ''2'') \<and>
   entries (snd (MergePreservingExistingKeys two_maps (Some 0) (Some 1))) (Some 1)
     = entries two_maps (Some 1)"
proof -
  have v0: "valid two_maps (Some 0)" and v1: "valid two_maps (Some 1)"
    by (simp_all add: valid_def two_maps_def)
  have run: "MergePreservingExistingKeys two_maps (Some 0) (Some 1) =
     (Some 0, [[(''memory'', MustParse ''8Gi''), (''cpu'', MustParse ''2'')],
               [(''cpu'', MustParse ''2''), (''memory'', MustParse ''4Gi'')]])"
    by (simp add: MergePreservingExistingKeys_def entries_def cell_def assign_def two_maps_def)
  have l0: "lookup two_maps (Some 0) ''memory'' = Some (MustParse ''8Gi'')"
    and l1: "lookup two_maps (Some 0) ''cpu'' = None"
    by (simp_all add: lookup_def cell_def two_maps_def)
  from MergePreservingExistingKeys_fills_missing [OF v0 v1 run] l0 l1 v0 v1 run
  show ?thesis by (simp add: lookup_def cell_def entries_def two_maps_def)
qed

subsection \<open>The Job that is built\<close>

lemma SetControllerReference_keeps:
  "job_Spec (snd (SetControllerReference v j s)) = job_Spec j"
  "job_Labels (snd (SetControllerReference v j s)) = job_Labels j"
  "job_Name (snd (SetControllerReference v j s)) = job_Name j"
  "job_Namespace (snd (SetControllerReference v j s)) = job_Namespace j"
  by (simp_all add: SetControllerReference_def split: option.splits)

lemma job_Parallelism:
  "Parallelism (job_Spec (fst (job r img h v))) =
     Some (if 0 <s Count (lt_Spec v) then scast (Count (lt_Spec v)) else 1)"
  by (simp add: job_def Let_def split_def SetControllerReference_keeps)

lemma job_Completions:
  "Completions (job_Spec (fst (job r img h v))) =
     Some (if 0 <s Count (lt_Spec v) then scast (Count (lt_Spec v)) else 1)"
  by (simp add: job_def Let_def split_def SetControllerReference_keeps)

lemma sint_narrow:
  fixes c :: "64 word"
  assumes "- 2147483648 \<le> sint c" and "sint c \<le> 2147483647"
  shows "sint (scast c :: 32 word) = sint c"
  using assms by (simp add: signed_scast_eq signed_take_bit_int_eq_self)

lemma job_Containers:
  "map c_Image (Containers (pod (fst (job r img h v)))) =
     [if Image (lt_Spec v) \<noteq> '''' then Image (lt_Spec v) else img]"
  "map c_Args (Containers (pod (fst (job r img h v)))) =
     [case Args (lt_Spec v) of None \<Rightarrow> [''help''] | Some a \<Rightarrow> a]"
  "map c_EnvFrom (Containers (pod (fst (job r img h v)))) =
     [if SecretEnvSource (lt_Spec v) \<noteq> ''''
      then [\<lparr>SecretRef = Some (SecretEnvSource (lt_Spec v))\<rparr>] else []]"
  by (simp_all add: job_def pod_def Let_def split_def SetControllerReference_keeps)

lemma job_no_mount:
  assumes "SecretMount (lt_Spec v) = None"
  shows "Volumes (pod (fst (job r img h v))) = []"
    and "map c_VolumeMounts (Containers (pod (fst (job r img h v)))) = [[]]"
    and "map c_Env (Containers (pod (fst (job r img h v)))) =
      [\<lparr>env_Name = ''WORKER_ID'', env_Value = '''',
         env_ValueFrom = Some (FieldRef ''metadata.name'')\<rparr> # TelemetryConfig r]"
  using assms
  by (simp_all add: job_def pod_def Let_def split_def SetControllerReference_keeps)

lemma job_mount:
  assumes "SecretMount (lt_Spec v) = Some sm"
  shows "Volumes (pod (fst (job r img h v))) =
      [\<lparr>vol_Name = sm_Name sm, vol_Secret = Some (sm_Name sm)\<rparr>]"
    and "map c_VolumeMounts (Containers (pod (fst (job r img h v)))) =
      [[\<lparr>vm_Name = sm_Name sm, vm_MountPath = sm_MountPoint sm\<rparr>]]"
    and "map c_Env (Containers (pod (fst (job r img h v)))) =
      [[\<lparr>env_Name = ''WORKER_ID'', env_Value = '''',
          env_ValueFrom = Some (FieldRef ''metadata.name'')\<rparr>,
        \<lparr>env_Name = ''USERS_PAYLOAD_PATH'',
          env_Value = sm_MountPoint sm @ ''/'' @ UsersFile (lt_Spec v),
          env_ValueFrom = None\<rparr>] @ TelemetryConfig r]"
    and "snd (snd (job r img h v)) =
      (if UsersFile (lt_Spec v) = ''''
       then [Error (New ''You need to specify the UsersFile when mounting a SecretsMount'')
               '''' []]
       else [])"
  using assms
  by (simp_all add: job_def pod_def Let_def split_def SetControllerReference_keeps)

lemma job_identity:
  "job_Name (fst (job r img h v)) = lt_Name v"
  "job_Namespace (fst (job r img h v)) = lt_Namespace v"
  "job_Labels (fst (job r img h v)) = labels v ''loadtest-worker-master''"
  "tmpl_Labels (Template (job_Spec (fst (job r img h v)))) = labels v ''loadtest-worker''"
  "BackoffLimit (job_Spec (fst (job r img h v))) = Some 0"
  "CompletionMode (job_Spec (fst (job r img h v))) = Some IndexedCompletion"
  "RestartPolicy (pod (fst (job r img h v))) = ''Never''"
  "map c_Name (Containers (pod (fst (job r img h v)))) = [lt_Name v]"
  by (simp_all add: job_def pod_def Let_def split_def SetControllerReference_keeps)

lemma labels_dom:
  "dom (labels v component) =
     {''artillery.io/test-name'', ''artillery.io/component'', ''artillery.io/part-of''}"
  by (auto simp: labels_def)

lemma labels_values:
  "labels v component ''artillery.io/test-name'' = Some (lt_Name v)"
  "labels v component ''artillery.io/component'' = Some component"
  "labels v component ''artillery.io/part-of'' = Some ''loadtest''"
  by (simp_all add: labels_def)

text \<open>
  C3. The built Job has equal parallelism and completions. When the count is zero or
  negative (or unset, which is zero) both are 1; when the count is \<open>N\<close> with
  \<open>0 < N \<le> 2147483647\<close>, the largest \<open>int32\<close>, both are \<open>N\<close>. That is \<open>max(count, 1)\<close> for
  every count that fits in 32 bits.
\<close>

theorem job_parallelism_completions:
  "(sint (Count (lt_Spec v)) \<le> 0 \<longrightarrow>
      Parallelism (job_Spec (fst (job r img h v))) = Some 1 \<and>
      Completions (job_Spec (fst (job r img h v))) = Some 1) \<and>
   (0 < sint (Count (lt_Spec v)) \<and> sint (Count (lt_Spec v)) \<le> 2147483647 \<longrightarrow>
      map_option sint (Parallelism (job_Spec (fst (job r img h v))))
        = Some (sint (Count (lt_Spec v))) \<and>
      map_option sint (Completions (job_Spec (fst (job r img h v))))
        = Some (sint (Count (lt_Spec v)))) \<and>
   Parallelism (job_Spec (fst (job r img h v))) = Completions (job_Spec (fst (job r img h v)))"
  by (simp add: job_Parallelism job_Completions word_sless_alt sint_narrow)

theorem job_parallelism_completions_witness:
  "sint (Count (lt_Spec test)) \<le> 0 \<and>
   Parallelism (job_Spec (fst (job reconciler ''artillery'' [] test))) = Some 1 \<and>
   Completions (job_Spec (fst (job reconciler ''artillery'' [] test))) = Some 1 \<and>
   0 < sint (Count (lt_Spec three)) \<and> sint (Count (lt_Spec three)) \<le> 2147483647 \<and>
   map_option sint (Parallelism (job_Spec (fst (job reconciler ''artillery'' [] three))))
     = Some 3 \<and>
   map_option sint (Completions (job_Spec (fst (job reconciler ''artillery'' [] three))))
     = Some 3"
proof -
  have t: "sint (Count (lt_Spec test)) = 0" and c: "sint (Count (lt_Spec three)) = 3"
    by (simp_all add: test_def three_def plain_Spec_def)
  show ?thesis
    using job_parallelism_completions [of test reconciler "''artillery''" "[]", THEN conjunct1]
      job_parallelism_completions [of three reconciler "''artillery''" "[]",
        THEN conjunct2, THEN conjunct1] t c
    by simp
qed

text \<open>
  C3 without the bound fails: \<open>int32(v.Spec.Count)\<close> keeps the low 32 bits of
  the count, so a count of \<open>2147483648\<close> gives a parallelism of \<open>-2147483648\<close>, which is
  not \<open>max(count, 1)\<close>.
\<close>

theorem job_parallelism_completions_counterexample:
  "sint (Count (lt_Spec huge)) = 2147483648 \<and>
   map_option sint (Parallelism (job_Spec (fst (job reconciler ''artillery'' [] huge))))
     = Some (- 2147483648) \<and>
   map_option sint (Parallelism (job_Spec (fst (job reconciler ''artillery'' [] huge))))
     \<noteq> Some (max (sint (Count (lt_Spec huge))) 1)"
  by (simp add: job_Parallelism huge_def test_def plain_Spec_def word_sless_alt)

text \<open>
  C5. The container image of the built Job is the image of the LoadTest when that is not
  the empty string and the default \<open>WorkerImage\<close> otherwise. The container args are the
  args of the LoadTest whenever that slice is not nil, also when it is empty, and the
  single-element list \<open>["help"]\<close> when it is nil.
\<close>

theorem job_image_args:
  "map c_Image (Containers (pod (fst (job r img h v)))) =
     [if Image (lt_Spec v) \<noteq> '''' then Image (lt_Spec v) else img] \<and>
   map c_Args (Containers (pod (fst (job r img h v)))) =
     [case Args (lt_Spec v) of None \<Rightarrow> [''help''] | Some a \<Rightarrow> a]"
  by (simp add: job_Containers)

theorem job_image_args_witness:
  "map c_Image (Containers (pod (fst (job reconciler ''artillery'' [] test)))) =
     [''artillery''] \<and>
   map c_Args (Containers (pod (fst (job reconciler ''artillery'' [] test)))) =
     [[''help'']] \<and>
   map c_Image (Containers (pod (fst (job reconciler ''artillery'' [] custom)))) =
     [''artillery:dev''] \<and>
   map c_Args (Containers (pod (fst (job reconciler ''artillery'' [] custom)))) =
     [[''run'', ''script.yaml'']]"
  using job_image_args [of reconciler "''artillery''" "[]" test]
    job_image_args [of reconciler "''artillery''" "[]" custom]
  by (simp add: test_def custom_def plain_Spec_def)

text \<open>
  C5 with "non-empty" for the args fails, since the default depends on the slice being
  nil, not on its being empty: for the
  empty, non-nil slice (what decoding \<open>args: []\<close> yields) the container gets no args
  and not \<open>["help"]\<close>.
\<close>

theorem job_image_args_counterexample:
  "Args (lt_Spec empty_args) = Some [] \<and>
   map c_Args (Containers (pod (fst (job reconciler ''artillery'' [] empty_args)))) = [[]] \<and>
   map c_Args (Containers (pod (fst (job reconciler ''artillery'' [] empty_args)))) \<noteq>
     [if (case Args (lt_Spec empty_args) of None \<Rightarrow> [] | Some a \<Rightarrow> a) \<noteq> []
      then (case Args (lt_Spec empty_args) of None \<Rightarrow> [] | Some a \<Rightarrow> a)
      else [''help'']]"
  by (simp add: job_Containers empty_args_def test_def plain_Spec_def)

text \<open>
  C6. Whatever the LoadTest, the reconciler, the default image and the store, the built
  Job has a backoff limit of 0.
\<close>

theorem job_backoffLimit:
  "BackoffLimit (job_Spec (fst (job r img h v))) = Some 0"
  by (simp add: job_identity)

text \<open>
  C7. When a secret mount is requested and the users file is the empty string, \<open>job\<close>
  logs an error and carries on: the Job is built as usual (name, namespace, the one
  container, backoff limit, completion mode, restart policy), with the volume and the
  mount of the secret, and the variable \<open>USERS_PAYLOAD_PATH\<close> holds the mount point
  followed by \<open>"/"\<close> and the empty file name.
\<close>

theorem job_mount_without_usersFile:
  assumes "SecretMount (lt_Spec v) = Some sm" and "UsersFile (lt_Spec v) = ''''"
  shows "Volumes (pod (fst (job r img h v))) =
      [\<lparr>vol_Name = sm_Name sm, vol_Secret = Some (sm_Name sm)\<rparr>] \<and>
    map c_VolumeMounts (Containers (pod (fst (job r img h v)))) =
      [[\<lparr>vm_Name = sm_Name sm, vm_MountPath = sm_MountPoint sm\<rparr>]] \<and>
    map c_Env (Containers (pod (fst (job r img h v)))) =
      [[\<lparr>env_Name = ''WORKER_ID'', env_Value = '''',
          env_ValueFrom = Some (FieldRef ''metadata.name'')\<rparr>,
        \<lparr>env_Name = ''USERS_PAYLOAD_PATH'', env_Value = sm_MountPoint sm @ ''/'' @ '''',
          env_ValueFrom = None\<rparr>] @ TelemetryConfig r] \<and>
    snd (snd (job r img h v)) =
      [Error (New ''You need to specify the UsersFile when mounting a SecretsMount'') '''' []] \<and>
    job_Name (fst (job r img h v)) = lt_Name v \<and>
    job_Namespace (fst (job r img h v)) = lt_Namespace v \<and>
    map c_Name (Containers (pod (fst (job r img h v)))) = [lt_Name v] \<and>
    BackoffLimit (job_Spec (fst (job r img h v))) = Some 0 \<and>
    CompletionMode (job_Spec (fst (job r img h v))) = Some IndexedCompletion \<and>
    RestartPolicy (pod (fst (job r img h v))) = ''Never''"
  using job_mount [OF assms(1), of r img h] assms(2) by (simp add: job_identity)

theorem job_mount_without_usersFile_witness:
  "SecretMount (lt_Spec mounted) = Some creds \<and> UsersFile (lt_Spec mounted) = '''' \<and>
   Volumes (pod (fst (job reconciler ''artillery'' [] mounted))) =
     [\<lparr>vol_Name = ''creds'', vol_Secret = Some ''creds''\<rparr>] \<and>
   map c_VolumeMounts (Containers (pod (fst (job reconciler ''artillery'' [] mounted)))) =
     [[\<lparr>vm_Name = ''creds'', vm_MountPath = ''/data''\<rparr>]] \<and>
   map c_Env (Containers (pod (fst (job reconciler ''artillery'' [] mounted)))) =
     [[\<lparr>env_Name = ''WORKER_ID'', env_Value = '''',
         env_ValueFrom = Some (FieldRef ''metadata.name'')\<rparr>,
       \<lparr>env_Name = ''USERS_PAYLOAD_PATH'', env_Value = ''/data/'', env_ValueFrom = None\<rparr>,
       \<lparr>env_Name = ''ARTILLERY_DISABLE_TELEMETRY'', env_Value = ''false'',
         env_ValueFrom = None\<rparr>]]"
proof -
  have m: "SecretMount (lt_Spec mounted) = Some creds"
    and u: "UsersFile (lt_Spec mounted) = ''''"
    by (simp_all add: mounted_def test_def plain_Spec_def)
  from job_mount_without_usersFile [OF m u, of reconciler "''artillery''" "[]"] m u
  show ?thesis by (simp add: creds_def reconciler_def)
qed

text \<open>
  C8. Both label sets of the built Job have exactly the three keys
  \<open>artillery.io/test-name\<close>, \<open>artillery.io/component\<close> and \<open>artillery.io/part-of\<close>; the
  test name is the name of the LoadTest and part-of is \<open>loadtest\<close>. The component of the
  Job's own labels is the string \<open>loadtest-worker-master\<close>, that of the pod template is
  the string \<open>loadtest-worker\<close>.
\<close>

theorem job_labels:
  "dom (job_Labels (fst (job r img h v))) =
     {''artillery.io/test-name'', ''artillery.io/component'', ''artillery.io/part-of''} \<and>
   job_Labels (fst (job r img h v)) ''artillery.io/test-name'' = Some (lt_Name v) \<and>
   job_Labels (fst (job r img h v)) ''artillery.io/part-of'' = Some ''loadtest'' \<and>
   job_Labels (fst (job r img h v)) ''artillery.io/component'' =
     Some ''loadtest-worker-master'' \<and>
   dom (tmpl_Labels (Template (job_Spec (fst (job r img h v))))) =
     {''artillery.io/test-name'', ''artillery.io/component'', ''artillery.io/part-of''} \<and>
   tmpl_Labels (Template (job_Spec (fst (job r img h v)))) ''artillery.io/test-name'' =
     Some (lt_Name v) \<and>
   tmpl_Labels (Template (job_Spec (fst (job r img h v)))) ''artillery.io/part-of'' =
     Some ''loadtest'' \<and>
   tmpl_Labels (Template (job_Spec (fst (job r img h v)))) ''artillery.io/component'' =
     Some ''loadtest-worker''"
  by (simp add: job_identity labels_dom labels_values)

text \<open>
  C8 with the component tags \<open>worker-master\<close> and \<open>worker\<close> fails: \<open>job\<close> passes the
  strings \<open>loadtest-worker-master\<close> and \<open>loadtest-worker\<close> to \<open>labels\<close>, so for the plain
  load test the component of the Job's labels is not \<open>worker-master\<close> and that of the
  pod template is not \<open>worker\<close>.
\<close>

theorem job_labels_counterexample:
  "job_Labels (fst (job reconciler ''artillery'' [] test)) ''artillery.io/component'' =
     Some ''loadtest-worker-master'' \<and>
   job_Labels (fst (job reconciler ''artillery'' [] test)) ''artillery.io/component'' \<noteq>
     Some ''worker-master'' \<and>
   tmpl_Labels (Template (job_Spec (fst (job reconciler ''artillery'' [] test))))
     ''artillery.io/component'' = Some ''loadtest-worker'' \<and>
   tmpl_Labels (Template (job_Spec (fst (job reconciler ''artillery'' [] test))))
     ''artillery.io/component'' \<noteq> Some ''worker''"
  by (simp add: job_identity labels_values)

text \<open>
  C10. Without a secret mount the built Job has no volume and no volume mount, and the
  environment of its container is the \<open>WORKER_ID\<close> entry followed by the telemetry
  entries, whatever the users file is; so no entry is named \<open>USERS_PAYLOAD_PATH\<close> unless
  the telemetry configuration supplies one. With an empty secret environment source
  the container's env-from list is empty.
\<close>

theorem job_without_mount_or_secret_env:
  "(SecretMount (lt_Spec v) = None \<longrightarrow>
      Volumes (pod (fst (job r img h v))) = [] \<and>
      map c_VolumeMounts (Containers (pod (fst (job r img h v)))) = [[]] \<and>
      map c_Env (Containers (pod (fst (job r img h v)))) =
        [\<lparr>env_Name = ''WORKER_ID'', env_Value = '''',
           env_ValueFrom = Some (FieldRef ''metadata.name'')\<rparr> # TelemetryConfig r] \<and>
      ((\<forall>e \<in> set (TelemetryConfig r). env_Name e \<noteq> ''USERS_PAYLOAD_PATH'') \<longrightarrow>
       (\<forall>env \<in> set (map c_Env (Containers (pod (fst (job r img h v))))).
          \<forall>e \<in> set env. env_Name e \<noteq> ''USERS_PAYLOAD_PATH''))) \<and>
   (SecretEnvSource (lt_Spec v) = '''' \<longrightarrow>
      map c_EnvFrom (Containers (pod (fst (job r img h v)))) = [[]])"
proof -
  have "SecretEnvSource (lt_Spec v) = '''' \<longrightarrow>
      map c_EnvFrom (Containers (pod (fst (job r img h v)))) = [[]]"
    by (simp add: job_Containers)
  moreover have "SecretMount (lt_Spec v) = None \<longrightarrow>
      Volumes (pod (fst (job r img h v))) = [] \<and>
      map c_VolumeMounts (Containers (pod (fst (job r img h v)))) = [[]] \<and>
      map c_Env (Containers (pod (fst (job r img h v)))) =
        [\<lparr>env_Name = ''WORKER_ID'', env_Value = '''',
           env_ValueFrom = Some (FieldRef ''metadata.name'')\<rparr> # TelemetryConfig r] \<and>
      ((\<forall>e \<in> set (TelemetryConfig r). env_Name e \<noteq> ''USERS_PAYLOAD_PATH'') \<longrightarrow>
       (\<forall>env \<in> set (map c_Env (Containers (pod (fst (job r img h v))))).
          \<forall>e \<in> set env. env_Name e \<noteq> ''USERS_PAYLOAD_PATH''))"
    by (simp add: job_no_mount)
  ultimately show ?thesis by blast
qed

theorem job_without_mount_or_secret_env_witness:
  "SecretMount (lt_Spec users_only) = None \<and> UsersFile (lt_Spec users_only) = ''users.csv'' \<and>
   SecretEnvSource (lt_Spec users_only) = '''' \<and>
   map env_Name (TelemetryConfig reconciler) = [''ARTILLERY_DISABLE_TELEMETRY''] \<and>
   Volumes (pod (fst (job reconciler ''artillery'' [] users_only))) = [] \<and>
   map c_VolumeMounts (Containers (pod (fst (job reconciler ''artillery'' [] users_only)))) =
     [[]] \<and>
   map c_Env (Containers (pod (fst (job reconciler ''artillery'' [] users_only)))) =
     [[\<lparr>env_Name = ''WORKER_ID'', env_Value = '''',
         env_ValueFrom = Some (FieldRef ''metadata.name'')\<rparr>,
       \<lparr>env_Name = ''ARTILLERY_DISABLE_TELEMETRY'', env_Value = ''false'',
         env_ValueFrom = None\<rparr>]] \<and>
   ''USERS_PAYLOAD_PATH'' \<notin> set (concat (map (map env_Name)
      (map c_Env (Containers (pod (fst (job reconciler ''artillery'' [] users_only))))))) \<and>
   map c_EnvFrom (Containers (pod (fst (job reconciler ''artillery'' [] users_only)))) = [[]]"
proof -
  have m: "SecretMount (lt_Spec users_only) = None"
    and u: "UsersFile (lt_Spec users_only) = ''users.csv''"
    and s: "SecretEnvSource (lt_Spec users_only) = ''''"
    by (simp_all add: users_only_def test_def plain_Spec_def)
  have t: "TelemetryConfig reconciler =
      [\<lparr>env_Name = ''ARTILLERY_DISABLE_TELEMETRY'', env_Value = ''false'',
         env_ValueFrom = None\<rparr>]"
    by (simp add: reconciler_def)
  from job_without_mount_or_secret_env [of users_only reconciler "''artillery''" "[]"] m u s t
  show ?thesis by simp
qed

subsection \<open>Ensuring the Job exists\<close>

lemma ensureJob_found:
  assumes "Get r (cluster w) (lookup_key instance j) = Inr found"
  shows "ensureJob r w instance j =
    ((None, None), w\<lparr>calls := calls w @ [GetCall (lookup_key instance j)]\<rparr>)"
  using assms by (simp add: ensureJob_def lookup_key_def Let_def)

lemma ensureJob_lookup_failed:
  assumes "Get r (cluster w) (lookup_key instance j) = Inl err" and "\<not> IsNotFound err"
  shows "ensureJob r w instance j =
    ((Some empty_Result, Some err),
     w\<lparr>calls := calls w @ [GetCall (lookup_key instance j)],
       logs := logs w @
         [Error err ''Failed to get Job'' [''Job.Namespace'', '''', ''Job.Name'', '''']]\<rparr>)"
  using assms by (simp add: ensureJob_def lookup_key_def Let_def)

lemma ensureJob_created:
  assumes "Get r (cluster w) (lookup_key instance j) = Inl err" and "IsNotFound err"
    and "Create r (cluster w) j = (None, c')"
  shows "ensureJob r w instance j =
    ((None, None),
     w\<lparr>calls := calls w @ [GetCall (lookup_key instance j), CreateCall j],
       logs := logs w @
         [Info ''Creating a new Job''
            [''Job.Namespace'', job_Namespace j, ''Job.Name'', job_Name j]],
       cluster := c',
       events := events w @
         [Eventf (lt_Name instance) ''Normal'' ''Created''
            (''Created Load Test worker master job: '' @ job_Name j)]\<rparr>)"
  using assms by (simp add: ensureJob_def lookup_key_def Let_def)

lemma ensureJob_create_failed:
  assumes "Get r (cluster w) (lookup_key instance j) = Inl err" and "IsNotFound err"
    and "Create r (cluster w) j = (Some e, c')"
  shows "ensureJob r w instance j =
    ((Some empty_Result, Some e),
     w\<lparr>calls := calls w @ [GetCall (lookup_key instance j), CreateCall j],
       logs := logs w @
         [Info ''Creating a new Job''
            [''Job.Namespace'', job_Namespace j, ''Job.Name'', job_Name j],
          Error e ''Failed to create new Job''
            [''Job.Namespace'', job_Namespace j, ''Job.Name'', job_Name j]],
       cluster := c'\<rparr>)"
  using assms by (simp add: ensureJob_def lookup_key_def Let_def)

lemma ensureJob_cases:
  "(\<exists>found. Get r (cluster w) (lookup_key instance j) = Inr found) \<or>
   (\<exists>err c'. Get r (cluster w) (lookup_key instance j) = Inl err \<and> IsNotFound err \<and>
      Create r (cluster w) j = (None, c')) \<or>
   (\<exists>err e c'. Get r (cluster w) (lookup_key instance j) = Inl err \<and> IsNotFound err \<and>
      Create r (cluster w) j = (Some e, c')) \<or>
   (\<exists>err. Get r (cluster w) (lookup_key instance j) = Inl err \<and> \<not> IsNotFound err)"
proof (cases "Get r (cluster w) (lookup_key instance j)")
  case (Inl err)
  then show ?thesis
    by (cases "Create r (cluster w) j"; cases "fst (Create r (cluster w) j)") auto
next
  case (Inr found)
  then show ?thesis by simp
qed

text \<open>
  C1. When the lookup fails with "not found", \<open>ensureJob\<close> submits the Job it was given,
  once. If the submission succeeds it returns no result and no error, and the cluster
  is as the submission left it; if the submission fails it returns the error of the
  submission as it is. When the lookup fails with any other error it returns that error
  as it is and makes no further client call.
\<close>

theorem ensureJob_creates_or_propagates:
  "(\<forall>err c'. Get r (cluster w) (lookup_key instance j) = Inl err \<and> IsNotFound err \<and>
       Create r (cluster w) j = (None, c') \<longrightarrow>
       fst (ensureJob r w instance j) = (None, None) \<and>
       calls (snd (ensureJob r w instance j)) =
         calls w @ [GetCall (lookup_key instance j), CreateCall j] \<and>
       cluster (snd (ensureJob r w instance j)) = c') \<and>
   (\<forall>err e c'. Get r (cluster w) (lookup_key instance j) = Inl err \<and> IsNotFound err \<and>
       Create r (cluster w) j = (Some e, c') \<longrightarrow>
       snd (fst (ensureJob r w instance j)) = Some e \<and>
       calls (snd (ensureJob r w instance j)) =
         calls w @ [GetCall (lookup_key instance j), CreateCall j]) \<and>
   (\<forall>err. Get r (cluster w) (lookup_key instance j) = Inl err \<and> \<not> IsNotFound err \<longrightarrow>
       snd (fst (ensureJob r w instance j)) = Some err \<and>
       calls (snd (ensureJob r w instance j)) = calls w @ [GetCall (lookup_key instance j)])"
  by (simp add: ensureJob_created ensureJob_create_failed ensureJob_lookup_failed)

theorem ensureJob_creates_or_propagates_witness:
  "Get reconciler (cluster start) (lookup_key test built) =
     Inl (StatusError StatusReasonNotFound ''not found'') \<and>
   Create reconciler (cluster start) built = (None, [((''default'', ''test''), built)]) \<and>
   fst (ensureJob reconciler start test built) = (None, None) \<and>
   calls (snd (ensureJob reconciler start test built)) =
     [GetCall (lookup_key test built), CreateCall built] \<and>
   cluster (snd (ensureJob reconciler start test built)) = [((''default'', ''test''), built)] \<and>
   Create (reconciler\<lparr>Create := down_Create\<rparr>) (cluster start) built =
     (Some (StatusError StatusReasonForbidden ''forbidden''), []) \<and>
   snd (fst (ensureJob (reconciler\<lparr>Create := down_Create\<rparr>) start test built)) =
     Some (StatusError StatusReasonForbidden ''forbidden'') \<and>
   Get (reconciler\<lparr>Get := down_Get\<rparr>) (cluster start) (lookup_key test built) =
     Inl (StatusError StatusReasonTimeout ''timeout'') \<and>
   snd (fst (ensureJob (reconciler\<lparr>Get := down_Get\<rparr>) start test built)) =
     Some (StatusError StatusReasonTimeout ''timeout'') \<and>
   calls (snd (ensureJob (reconciler\<lparr>Get := down_Get\<rparr>) start test built)) =
     [GetCall (lookup_key test built)]"
proof -
  have name: "job_Name built = ''test''" and ns: "job_Namespace built = ''default''"
    by (simp_all add: built_def job_identity test_def)
  have g: "Get reconciler (cluster start) (lookup_key test built) =
      Inl (StatusError StatusReasonNotFound ''not found'')"
    by (simp add: reconciler_def start_def jobs_Get_def)
  have c: "Create reconciler (cluster start) built = (None, [((''default'', ''test''), built)])"
    by (simp add: reconciler_def start_def jobs_Create_def name ns)
  have g2: "Get (reconciler\<lparr>Create := down_Create\<rparr>) (cluster start) (lookup_key test built) =
      Inl (StatusError StatusReasonNotFound ''not found'')"
    by (simp add: reconciler_def start_def jobs_Get_def)
  have c2: "Create (reconciler\<lparr>Create := down_Create\<rparr>) (cluster start) built =
      (Some (StatusError StatusReasonForbidden ''forbidden''), [])"
    by (simp add: start_def down_Create_def)
  have g3: "Get (reconciler\<lparr>Get := down_Get\<rparr>) (cluster start) (lookup_key test built) =
      Inl (StatusError StatusReasonTimeout ''timeout'')"
    by (simp add: down_Get_def)
  have e: "calls start = []" by (simp add: start_def)
  from ensureJob_creates_or_propagates [of reconciler start test built] g c
  have a: "fst (ensureJob reconciler start test built) = (None, None) \<and>
      calls (snd (ensureJob reconciler start test built)) =
        [GetCall (lookup_key test built), CreateCall built] \<and>
      cluster (snd (ensureJob reconciler start test built)) = [((''default'', ''test''), built)]"
    by (simp add: e)
  from ensureJob_creates_or_propagates
    [of "reconciler\<lparr>Create := down_Create\<rparr>" start test built] g2 c2
  have b: "snd (fst (ensureJob (reconciler\<lparr>Create := down_Create\<rparr>) start test built)) =
      Some (StatusError StatusReasonForbidden ''forbidden'')"
    by simp
  from ensureJob_creates_or_propagates
    [of "reconciler\<lparr>Get := down_Get\<rparr>" start test built] g3
  have d: "snd (fst (ensureJob (reconciler\<lparr>Get := down_Get\<rparr>) start test built)) =
      Some (StatusError StatusReasonTimeout ''timeout'') \<and>
    calls (snd (ensureJob (reconciler\<lparr>Get := down_Get\<rparr>) start test built)) =
      [GetCall (lookup_key test built)]"
    by (simp add: e)
  from g c a c2 b g3 d show ?thesis by simp
qed

text \<open>
  C2. When the lookup succeeds, \<open>ensureJob\<close> returns no result and no error, makes no
  client call but the lookup, and leaves the cluster and the events as they were. In
  particular, when a second call in sequence observes the Job after the first call, the
  second call submits nothing: the number of submissions and the cluster are those
  after the first call.
\<close>

theorem ensureJob_idempotent:
  "(\<forall>found. Get r (cluster w) (lookup_key instance j) = Inr found \<longrightarrow>
       fst (ensureJob r w instance j) = (None, None) \<and>
       calls (snd (ensureJob r w instance j)) = calls w @ [GetCall (lookup_key instance j)] \<and>
       cluster (snd (ensureJob r w instance j)) = cluster w \<and>
       events (snd (ensureJob r w instance j)) = events w) \<and>
   (\<forall>found. Get r (cluster (snd (ensureJob r w instance j))) (lookup_key instance j)
         = Inr found \<longrightarrow>
       fst (ensureJob r (snd (ensureJob r w instance j)) instance j) = (None, None) \<and>
       creations (snd (ensureJob r (snd (ensureJob r w instance j)) instance j)) =
         creations (snd (ensureJob r w instance j)) \<and>
       cluster (snd (ensureJob r (snd (ensureJob r w instance j)) instance j)) =
         cluster (snd (ensureJob r w instance j)))"
  by (simp add: ensureJob_found creations_def)

theorem ensureJob_idempotent_witness:
  "Get reconciler (cluster created) (lookup_key test built) = Inr built \<and>
   fst (ensureJob reconciler created test built) = (None, None) \<and>
   calls (snd (ensureJob reconciler created test built)) = [GetCall (lookup_key test built)] \<and>
   cluster (snd (ensureJob reconciler created test built)) = cluster created \<and>
   Get reconciler (cluster (snd (ensureJob reconciler start test built)))
     (lookup_key test built) = Inr built \<and>
   creations (snd (ensureJob reconciler start test built)) = 1 \<and>
   fst (ensureJob reconciler (snd (ensureJob reconciler start test built)) test built) =
     (None, None) \<and>
   creations (snd (ensureJob reconciler (snd (ensureJob reconciler start test built))
     test built)) = 1"
proof -
  have name: "job_Name built = ''test''" and ns: "job_Namespace built = ''default''"
    by (simp_all add: built_def job_identity test_def)
  have key: "lookup_key test built = \<lparr>nn_Name = ''test'', nn_Namespace = ''default''\<rparr>"
    by (simp add: lookup_key_def name test_def)
  have g0: "Get reconciler (cluster start) (lookup_key test built) =
      Inl (StatusError StatusReasonNotFound ''not found'')"
    by (simp add: reconciler_def start_def jobs_Get_def)
  have c0: "Create reconciler (cluster start) built = (None, [((''default'', ''test''), built)])"
    by (simp add: reconciler_def start_def jobs_Create_def name ns)
  have first: "ensureJob reconciler start test built =
      ((None, None),
       start\<lparr>calls := calls start @ [GetCall (lookup_key test built), CreateCall built],
         logs := logs start @
           [Info ''Creating a new Job''
              [''Job.Namespace'', job_Namespace built, ''Job.Name'', job_Name built]],
         cluster := [((''default'', ''test''), built)],
         events := events start @
           [Eventf (lt_Name test) ''Normal'' ''Created''
              (''Created Load Test worker master job: '' @ job_Name built)]\<rparr>)"
    by (rule ensureJob_created [OF g0 _ c0]) simp
  have cl: "cluster (snd (ensureJob reconciler start test built)) =
      [((''default'', ''test''), built)]"
    by (simp add: first)
  have n1: "creations (snd (ensureJob reconciler start test built)) = 1"
    by (simp add: first creations_def, simp add: start_def)
  have g1: "Get reconciler (cluster (snd (ensureJob reconciler start test built)))
      (lookup_key test built) = Inr built"
  proof -
    have "Get reconciler = jobs_Get" by (simp add: reconciler_def)
    then show ?thesis by (simp add: cl key jobs_Get_def)
  qed
  have g: "Get reconciler (cluster created) (lookup_key test built) = Inr built"
    by (simp add: created_def key reconciler_def jobs_Get_def)
  have e: "calls created = []" by (simp add: created_def start_def)
  from ensureJob_idempotent [of reconciler created test built] g
  have a: "fst (ensureJob reconciler created test built) = (None, None) \<and>
      calls (snd (ensureJob reconciler created test built)) =
        [GetCall (lookup_key test built)] \<and>
      cluster (snd (ensureJob reconciler created test built)) = cluster created"
    by (simp add: e)
  from ensureJob_idempotent [of reconciler start test built] g1
  have b: "fst (ensureJob reconciler (snd (ensureJob reconciler start test built)) test built) =
      (None, None) \<and>
    creations (snd (ensureJob reconciler (snd (ensureJob reconciler start test built))
      test built)) = creations (snd (ensureJob reconciler start test built))"
    by simp
  from g a g1 n1 b show ?thesis by simp
qed

text \<open>
  C9. \<open>ensureJob\<close> returns a result pointer that is not nil if and only if it returns an
  error, and that result then is the empty \<open>ctrl.Result{}\<close>. On both success paths (the
  Job was found, or it was created) it returns nil and nil.
\<close>

theorem ensureJob_result_iff_error:
  "(fst (fst (ensureJob r w instance j)) \<noteq> None) =
     (snd (fst (ensureJob r w instance j)) \<noteq> None) \<and>
   (fst (fst (ensureJob r w instance j)) = None \<or>
    fst (fst (ensureJob r w instance j)) = Some empty_Result) \<and>
   (\<forall>found. Get r (cluster w) (lookup_key instance j) = Inr found \<longrightarrow>
      fst (ensureJob r w instance j) = (None, None)) \<and>
   (\<forall>err c'. Get r (cluster w) (lookup_key instance j) = Inl err \<and> IsNotFound err \<and>
      Create r (cluster w) j = (None, c') \<longrightarrow>
      fst (ensureJob r w instance j) = (None, None))"
  using ensureJob_cases [of r w "instance" j]
  by (auto simp: ensureJob_found ensureJob_created ensureJob_create_failed
      ensureJob_lookup_failed)

theorem ensureJob_result_iff_error_witness:
  "Get reconciler (cluster created) (lookup_key test built) = Inr built \<and>
   fst (ensureJob reconciler created test built) = (None, None) \<and>
   Get reconciler (cluster start) (lookup_key test built) =
     Inl (StatusError StatusReasonNotFound ''not found'') \<and>
   Create reconciler (cluster start) built = (None, [((''default'', ''test''), built)]) \<and>
   fst (ensureJob reconciler start test built) = (None, None) \<and>
   fst (ensureJob (reconciler\<lparr>Get := down_Get\<rparr>) start test built) =
     (Some empty_Result, Some (StatusError StatusReasonTimeout ''timeout''))"
proof -
  have name: "job_Name built = ''test''" and ns: "job_Namespace built = ''default''"
    by (simp_all add: built_def job_identity test_def)
  have key: "lookup_key test built = \<lparr>nn_Name = ''test'', nn_Namespace = ''default''\<rparr>"
    by (simp add: lookup_key_def name test_def)
  have g: "Get reconciler (cluster created) (lookup_key test built) = Inr built"
    by (simp add: created_def key reconciler_def jobs_Get_def)
  have g0: "Get reconciler (cluster start) (lookup_key test built) =
      Inl (StatusError StatusReasonNotFound ''not found'')"
    by (simp add: reconciler_def start_def jobs_Get_def)
  have c0: "Create reconciler (cluster start) built = (None, [((''default'', ''test''), built)])"
    by (simp add: reconciler_def start_def jobs_Create_def name ns)
  have g3: "Get (reconciler\<lparr>Get := down_Get\<rparr>) (cluster start) (lookup_key test built) =
      Inl (StatusError StatusReasonTimeout ''timeout'')"
    by (simp add: down_Get_def)
  from ensureJob_result_iff_error [of reconciler created test built] g
  have a: "fst (ensureJob reconciler created test built) = (None, None)" by simp
  from ensureJob_result_iff_error [of reconciler start test built] g0 c0
  have b: "fst (ensureJob reconciler start test built) = (None, None)" by simp
  have err: "snd (fst (ensureJob (reconciler\<lparr>Get := down_Get\<rparr>) start test built)) =
      Some (StatusError StatusReasonTimeout ''timeout'')"
    by (simp add: ensureJob_lookup_failed [OF g3])
  with ensureJob_result_iff_error [of "reconciler\<lparr>Get := down_Get\<rparr>" start test built]
  have d: "fst (ensureJob (reconciler\<lparr>Get := down_Get\<rparr>) start test built) =
      (Some empty_Result, Some (StatusError StatusReasonTimeout ''timeout''))"
    by (auto simp: prod_eq_iff)
  from g a g0 c0 b d show ?thesis by simp
qed

end
